theory Spec2Isabelle
  imports Complex_Main
begin

section \<open>Python values used by the engine\<close>

text \<open>
  Floats are idealised as real numbers: the rounding of float64 arithmetic, its overflow
  to infinity, its underflow to zero and the wrap-around of int64 arrays are not part of
  the model. A statement about every price series is therefore made for the series on
  which that arithmetic stays in range (\<open>within_float_range\<close> below). A dictionary
  entry that the engine reads as a number has three states in the source: the key is
  missing, the key holds \<open>None\<close> (the scraper stores \<open>None\<close> for an element it could
  not find), or it holds a number.
\<close>

datatype field = Absent | Null | Num real

datatype py_error = KeyError | TypeError | AttributeError | IndexError | ValueError
  | ZeroDivisionError

text \<open>\<open>d.get(k)\<close>: a missing key and a stored \<open>None\<close> both read as \<open>None\<close>.\<close>

fun py_get :: "field \<Rightarrow> real option" where
  "py_get Absent = None"
| "py_get Null = None"
| "py_get (Num x) = Some x"

text \<open>\<open>d.get(k, dflt)\<close>: only a missing key reads as the default.\<close>

fun py_get_default :: "field \<Rightarrow> real \<Rightarrow> real option" where
  "py_get_default Absent dflt = Some dflt"
| "py_get_default Null dflt = None"
| "py_get_default (Num x) dflt = Some x"

text \<open>\<open>d[k]\<close> on a dictionary whose entry may be missing.\<close>

fun py_item :: "'a option \<Rightarrow> py_error + 'a" where
  "py_item None = Inl KeyError"
| "py_item (Some v) = Inr v"

text \<open>\<open>x * c\<close> where \<open>x\<close> may be \<open>None\<close>: multiplying \<open>None\<close> raises TypeError.\<close>

fun py_mul :: "real option \<Rightarrow> real \<Rightarrow> py_error + real" where
  "py_mul None c = Inl TypeError"
| "py_mul (Some x) c = Inr (x * c)"

text \<open>Truthiness of a number or \<open>None\<close>.\<close>

fun py_truthy :: "real option \<Rightarrow> bool" where
  "py_truthy None = False"
| "py_truthy (Some x) = (x \<noteq> 0)"

text \<open>Sequencing of steps that may raise: the first exception ends the block.\<close>

fun and_then :: "py_error + 'a \<Rightarrow> ('a \<Rightarrow> py_error + 'b) \<Rightarrow> py_error + 'b" where
  "and_then (Inl e) f = Inl e"
| "and_then (Inr x) f = f x"

text \<open>
  \<open>round(x, 2)\<close>: rounding to two decimals, ties to the even neighbour;
  \<open>round(None, 2)\<close> raises TypeError.
\<close>

definition round_half_even :: "real \<Rightarrow> int" where
  "round_half_even x =
     (let f = \<lfloor>x\<rfloor>; d = x - of_int f
      in if d < 1 / 2 then f
         else if 1 / 2 < d then f + 1
         else if even f then f else f + 1)"

definition round2 :: "real \<Rightarrow> real" where
  "round2 x = of_int (round_half_even (x * 100)) / 100"

fun py_round2 :: "real option \<Rightarrow> py_error + real" where
  "py_round2 None = Inl TypeError"
| "py_round2 (Some x) = Inr (round2 x)"

text \<open>\<open>sub in s\<close> on strings: \<open>sub\<close> occurs in \<open>s\<close> as a contiguous run.\<close>

fun starts_with :: "string \<Rightarrow> string \<Rightarrow> bool" where
  "starts_with [] s = True"
| "starts_with (c # cs) [] = False"
| "starts_with (c # cs) (d # ds) = (c = d \<and> starts_with cs ds)"

fun py_in :: "string \<Rightarrow> string \<Rightarrow> bool" where
  "py_in sub [] = (sub = [])"
| "py_in sub (c # cs) = (starts_with sub (c # cs) \<or> py_in sub cs)"

section \<open>The data handed to the engine\<close>

text \<open>
  The \<open>macd\<close> entry of a snapshot: missing, \<open>None\<close> (the scraper stores \<open>None\<close>
  when it could not compute the oscillator), or a dictionary with the entries
  \<open>macd\<close> and \<open>signal\<close>.
\<close>

datatype macd_entry = MAbsent | MNull | MDict field field

record snapshot =
  d_price :: field
  d_change :: field
  d_volume :: field
  d_rsi :: field
  d_macd :: macd_entry
  d_52w_high :: field
  d_52w_low :: field

text \<open>The empty dictionary \<open>{}\<close>.\<close>

definition empty_data :: snapshot where
  "empty_data = \<lparr>d_price = Absent, d_change = Absent, d_volume = Absent, d_rsi = Absent,
     d_macd = MAbsent, d_52w_high = Absent, d_52w_low = Absent\<rparr>"

text \<open>
  The dictionaries passed between the components. A field that is \<open>None\<close> here is a
  key the dictionary does not have, so that \<open>d[k]\<close> raises KeyError.
\<close>

record technical =
  t_trend :: "string option"
  t_strength :: "string option"
  t_signals :: "string list option"

record price_dict =
  p_trend :: "string option"
  p_volatility :: "string option"
  p_support :: "real option"
  p_resistance :: "real option"

record analysis =
  a_data :: snapshot
  a_technical_analysis :: technical
  a_price_analysis :: price_dict
  a_signals :: "string list"

section \<open>MarketData (src/data/market\_data.py)\<close>

definition rsi_signals :: "snapshot \<Rightarrow> string list" where
  "rsi_signals data =
     (case py_get (d_rsi data) of
        None \<Rightarrow> []
      | Some rsi \<Rightarrow>
          if rsi > 70 then [''overbought'']
          else if rsi < 30 then [''oversold'']
          else [])"

definition macd_signals :: "snapshot \<Rightarrow> string list" where
  "macd_signals data =
     (case d_macd data of
        MAbsent \<Rightarrow> []
      | MNull \<Rightarrow> []
      | MDict l s \<Rightarrow>
          (case (py_get l, py_get s) of
             (Some macd_line, Some signal_line) \<Rightarrow>
               if macd_line > signal_line then [''bullish_macd''] else [''bearish_macd'']
           | _ \<Rightarrow> []))"

definition analyze_technical_indicators :: "snapshot \<Rightarrow> technical" where
  "analyze_technical_indicators data =
     \<lparr>t_trend = Some ''neutral'', t_strength = Some ''weak'',
      t_signals = Some ([] @ rsi_signals data @ macd_signals data)\<rparr>"

definition determine_trend :: "snapshot \<Rightarrow> py_error + string" where
  "determine_trend data =
     (case py_get_default (d_change data) 0 of
        None \<Rightarrow> Inl TypeError
      | Some change \<Rightarrow>
          if change > 1 then Inr ''uptrend''
          else if change < - 1 then Inr ''downtrend''
          else Inr ''sideways'')"

definition calculate_volatility :: "snapshot \<Rightarrow> string" where
  "calculate_volatility data =
     (let high = py_get_default (d_52w_high data) 0;
          low = py_get_default (d_52w_low data) 0
      in case (high, low) of
           (Some h, Some l) \<Rightarrow>
             if py_truthy high \<and> py_truthy low \<and> h > l then
               (let volatility = (h - l) / l * 100
                in if volatility > 50 then ''high''
                   else if volatility > 25 then ''medium''
                   else ''low'')
             else ''low''
         | _ \<Rightarrow> ''low'')"

definition analyze_price_action :: "snapshot \<Rightarrow> py_error + price_dict" where
  "analyze_price_action data =
     and_then (determine_trend data) (\<lambda>tr.
       Inr \<lparr>p_trend = Some tr, p_volatility = Some (calculate_volatility data),
            p_support = py_get (d_52w_low data), p_resistance = py_get (d_52w_high data)\<rparr>)"

definition generate_signals :: "technical \<Rightarrow> price_dict \<Rightarrow> py_error + string list" where
  "generate_signals technical_analysis price_analysis =
     and_then (py_item (t_signals technical_analysis)) (\<lambda>ts.
     and_then (py_item (p_trend price_analysis)) (\<lambda>tr.
     and_then (py_item (p_volatility price_analysis)) (\<lambda>vol.
       Inr (ts
            @ (if tr = ''uptrend'' then [''trend_following_buy'']
               else if tr = ''downtrend'' then [''trend_following_sell'']
               else [])
            @ (if vol = ''high'' then [''high_volatility''] else [])))))"

definition get_empty_analysis :: analysis where
  "get_empty_analysis =
     \<lparr>a_data = empty_data,
      a_technical_analysis =
        \<lparr>t_trend = Some ''neutral'', t_strength = Some ''weak'', t_signals = Some []\<rparr>,
      a_price_analysis =
        \<lparr>p_trend = Some ''sideways'', p_volatility = Some ''low'',
         p_support = None, p_resistance = None\<rparr>,
      a_signals = []\<rparr>"

text \<open>
  \<open>analyze_stock\<close>, from the value \<open>get_stock_data\<close> returned (\<open>None\<close> when the
  fetch failed). Any exception of the body gives the empty analysis. A dictionary that
  holds none of the keys the engine reads is analysed to the same technical analysis,
  price analysis and signals as the empty dictionary.
\<close>

definition analyze_stock_body :: "snapshot \<Rightarrow> py_error + analysis" where
  "analyze_stock_body data =
     (let technical_analysis = analyze_technical_indicators data
      in and_then (analyze_price_action data) (\<lambda>price_analysis.
         and_then (generate_signals technical_analysis price_analysis) (\<lambda>signals.
           Inr \<lparr>a_data = data, a_technical_analysis = technical_analysis,
                a_price_analysis = price_analysis, a_signals = signals\<rparr>)))"

definition analyze_stock :: "snapshot option \<Rightarrow> analysis" where
  "analyze_stock fetched =
     (case fetched of
        None \<Rightarrow> get_empty_analysis
      | Some data \<Rightarrow>
          if data = empty_data then get_empty_analysis
          else (case analyze_stock_body data of
                  Inl e \<Rightarrow> get_empty_analysis
                | Inr a \<Rightarrow> a))"

section \<open>TradeAnalyzer (src/core/analyzer.py)\<close>

record risk_metrics =
  entry_price :: real
  stop_loss :: real
  take_profit :: real
  win_rate :: int
  risk_percentage :: real

definition win_rate_step :: "int \<Rightarrow> string \<Rightarrow> int" where
  "win_rate_step base_win_rate signal =
     (if signal \<in> set [''oversold'', ''bullish_macd''] then base_win_rate + 5
      else if signal \<in> set [''overbought'', ''bearish_macd''] then base_win_rate + 5
      else base_win_rate)"

definition entry_price_of :: "real option \<Rightarrow> string \<Rightarrow> py_error + real option" where
  "entry_price_of current_price tr =
     (if tr = ''uptrend'' then and_then (py_mul current_price (99 / 100)) (\<lambda>e. Inr (Some e))
      else if tr = ''downtrend'' then
        and_then (py_mul current_price (101 / 100)) (\<lambda>e. Inr (Some e))
      else Inr current_price)"

definition stop_take_pct :: "string \<Rightarrow> real \<times> real" where
  "stop_take_pct volatility =
     (if volatility = ''high'' then (5 / 100, 15 / 100)
      else if volatility = ''medium'' then (3 / 100, 9 / 100)
      else (2 / 100, 6 / 100))"

definition strength_bonus :: "string \<Rightarrow> int" where
  "strength_bonus strength =
     (if strength = ''strong'' then 10 else if strength = ''moderate'' then 5 else 0)"

definition risk_metrics_body :: "snapshot \<Rightarrow> technical \<Rightarrow> price_dict \<Rightarrow> py_error + risk_metrics" where
  "risk_metrics_body data technical price =
     (let current_price = py_get_default (d_price data) 0
      in and_then (py_item (p_trend price)) (\<lambda>tr.
         and_then (entry_price_of current_price tr) (\<lambda>entry.
         and_then (py_item (p_volatility price)) (\<lambda>volatility.
           (let (stop_loss_pct, take_profit_pct) = stop_take_pct volatility
            in and_then (py_mul entry (1 - stop_loss_pct)) (\<lambda>stop.
               and_then (py_mul entry (1 + take_profit_pct)) (\<lambda>take.
               and_then (py_item (t_signals technical)) (\<lambda>sigs.
                 (let base_win_rate = foldl win_rate_step 50 sigs
                  in and_then (py_item (t_strength technical)) (\<lambda>strength.
                       (let win = min (base_win_rate + strength_bonus strength) 90
                        in and_then (py_round2 entry) (\<lambda>re.
                             Inr \<lparr>entry_price = re, stop_loss = round2 stop,
                                  take_profit = round2 take, win_rate = win,
                                  risk_percentage = round2 (stop_loss_pct * 100)\<rparr>))))))))))))"

definition calculate_risk_metrics :: "snapshot \<Rightarrow> technical \<Rightarrow> price_dict \<Rightarrow> risk_metrics" where
  "calculate_risk_metrics data technical price =
     (case risk_metrics_body data technical price of
        Inl e \<Rightarrow> \<lparr>entry_price = 0, stop_loss = 0, take_profit = 0, win_rate = 0,
                  risk_percentage = 0\<rparr>
      | Inr m \<Rightarrow> m)"

definition recommendation_body :: "technical \<Rightarrow> price_dict \<Rightarrow> string list \<Rightarrow> py_error + string" where
  "recommendation_body technical price signals =
     (let bullish_signals = length (filter (\<lambda>s. py_in ''buy'' s \<or> py_in ''bullish'' s) signals);
          bearish_signals = length (filter (\<lambda>s. py_in ''sell'' s \<or> py_in ''bearish'' s) signals)
      in and_then (py_item (p_trend price)) (\<lambda>tr.
           (let bullish = (if tr = ''uptrend'' then bullish_signals + 1 else bullish_signals);
                bearish = (if tr \<noteq> ''uptrend'' \<and> tr = ''downtrend'' then bearish_signals + 1
                           else bearish_signals)
            in if bullish > bearish then
                 and_then (py_item (t_strength technical)) (\<lambda>strength.
                   if strength = ''strong'' then Inr ''Strong Buy'' else Inr ''Buy'')
               else if bearish > bullish then
                 and_then (py_item (t_strength technical)) (\<lambda>strength.
                   if strength = ''strong'' then Inr ''Strong Sell'' else Inr ''Sell'')
               else Inr ''Hold'')))"

definition generate_recommendation :: "technical \<Rightarrow> price_dict \<Rightarrow> string list \<Rightarrow> string" where
  "generate_recommendation technical price signals =
     (case recommendation_body technical price signals of
        Inl e \<Rightarrow> ''Hold''
      | Inr r \<Rightarrow> r)"

record quote_result =
  q_symbol :: string
  q_price :: "real option"
  q_change :: "real option"
  q_volume :: "real option"
  q_rsi :: "real option"
  q_macd :: "real option"
  q_macd_signal :: "real option"
  q_trend :: string
  q_trend_strength :: string
  q_entry_price :: real
  q_stop_loss :: real
  q_take_profit :: real
  q_win_rate :: int
  q_risk_percentage :: real
  q_recommendation :: string

text \<open>
  \<open>data.get('macd', {}).get(k)\<close>: a stored \<open>None\<close> has no \<open>get\<close> and raises
  AttributeError.
\<close>

fun macd_get :: "macd_entry \<Rightarrow> bool \<Rightarrow> py_error + real option" where
  "macd_get MAbsent want_signal = Inr None"
| "macd_get MNull want_signal = Inl AttributeError"
| "macd_get (MDict l s) want_signal = Inr (py_get (if want_signal then s else l))"

definition analyze_quote_body :: "string \<Rightarrow> snapshot option \<Rightarrow> py_error + quote_result" where
  "analyze_quote_body symbol fetched =
     (let analysis = analyze_stock fetched;
          data = a_data analysis;
          technical = a_technical_analysis analysis;
          price = a_price_analysis analysis;
          signals = a_signals analysis;
          risk = calculate_risk_metrics data technical price;
          recommendation = generate_recommendation technical price signals
      in and_then (macd_get (d_macd data) False) (\<lambda>m.
         and_then (macd_get (d_macd data) True) (\<lambda>ms.
         and_then (py_item (p_trend price)) (\<lambda>tr.
         and_then (py_item (t_strength technical)) (\<lambda>strength.
           Inr \<lparr>q_symbol = symbol, q_price = py_get (d_price data),
                q_change = py_get (d_change data), q_volume = py_get (d_volume data),
                q_rsi = py_get (d_rsi data), q_macd = m, q_macd_signal = ms,
                q_trend = tr, q_trend_strength = strength,
                q_entry_price = entry_price risk, q_stop_loss = stop_loss risk,
                q_take_profit = take_profit risk, q_win_rate = win_rate risk,
                q_risk_percentage = risk_percentage risk,
                q_recommendation = recommendation\<rparr>)))))"

definition analyze_quote :: "string \<Rightarrow> snapshot option \<Rightarrow> quote_result option" where
  "analyze_quote symbol fetched =
     (case analyze_quote_body symbol fetched of
        Inl e \<Rightarrow> None
      | Inr r \<Rightarrow> Some r)"

section \<open>Indicator inputs and numpy helpers\<close>

text \<open>
  The object handed to an indicator as a price or volume series: something that is
  neither a list nor an array (\<open>None\<close>, a number, a string), a Python list of
  numbers, or a numpy array of numbers.
\<close>

datatype py_arg = NotSeq | PyList "real list" | NdArray "real list"

fun seq_items :: "py_arg \<Rightarrow> real list option" where
  "seq_items NotSeq = None"
| "seq_items (PyList xs) = Some xs"
| "seq_items (NdArray xs) = Some xs"

fun seq_len :: "py_arg \<Rightarrow> nat option" where
  "seq_len NotSeq = None"
| "seq_len (PyList xs) = Some (length xs)"
| "seq_len (NdArray xs) = Some (length xs)"

text \<open>
  \<open>np.diff\<close>: successive differences, one fewer than the input. They are the exact
  differences; numpy's float64 differences overflow to infinity and its int64 differences
  wrap around once the prices are large enough.
\<close>

fun np_diff :: "real list \<Rightarrow> real list" where
  "np_diff (x # y # ys) = (y - x) # np_diff (y # ys)"
| "np_diff [x] = []"
| "np_diff [] = []"

text \<open>
  \<open>np.mean\<close> of a non-empty sequence. Of an empty one numpy returns nan with a
  warning; the callers below say what becomes of it.
\<close>

definition np_mean :: "real list \<Rightarrow> real" where
  "np_mean xs = sum_list xs / real (length xs)"

text \<open>\<open>xs[-n:]\<close> for a positive \<open>n\<close>: the last \<open>n\<close> items, all of them if fewer.\<close>

definition last_n :: "nat \<Rightarrow> 'a list \<Rightarrow> 'a list" where
  "last_n n xs = drop (length xs - n) xs"

section \<open>RSIIndicator (src/indicators/rsi.py)\<close>

text \<open>A float result: a finite number, or nan.\<close>

datatype py_float = Fin real | NaN

text \<open>
  \<open>_calculate_average\<close>. With period 0 the initial \<open>np.mean\<close> of the empty slice
  is nan, and the recurrence (a float64 division by 0) keeps it nan.
\<close>

definition calculate_average :: "nat \<Rightarrow> real list \<Rightarrow> py_float" where
  "calculate_average period vals =
     (if length vals < period then Fin 0
      else if period = 0 then NaN
      else Fin (foldl (\<lambda>avg v. (avg * (real period - 1) + v) / real period)
                  (np_mean (take period vals)) (drop period vals)))"

definition gains_of :: "real list \<Rightarrow> real list" where
  "gains_of changes = map (\<lambda>c. if c > 0 then c else 0) changes"

definition losses_of :: "real list \<Rightarrow> real list" where
  "losses_of changes = map (\<lambda>c. if c < 0 then - c else 0) changes"

text \<open>
  The body of \<open>calculate\<close> once \<open>prices\<close> passed the first test. A
  ZeroDivisionError of \<open>100 / (1 + rs)\<close> would be caught and give \<open>None\<close>.
\<close>

definition rsi_from_prices :: "nat \<Rightarrow> real list \<Rightarrow> py_float option" where
  "rsi_from_prices period prices =
     (if length prices < period then None
      else
        (let changes = np_diff prices
         in if length changes < period then None
            else
              (let gains = gains_of changes;
                   losses = losses_of changes;
                   avg_gain = calculate_average period gains;
                   avg_loss = calculate_average period losses
               in if avg_loss = Fin 0 then Some (Fin 100)
                  else
                    (case (avg_gain, avg_loss) of
                       (Fin g, Fin l) \<Rightarrow>
                         (let rs = g / l
                          in if 1 + rs = 0 then None
                             else Some (Fin (100 - 100 / (1 + rs))))
                     | _ \<Rightarrow> Some NaN))))"

text \<open>
  \<open>calculate\<close>. The first test is
  \<open>not isinstance(prices, (list, np.ndarray)) or not prices\<close>: an empty list is
  falsy; \<open>not prices\<close> on an array of two or more items raises ValueError, which the
  handler turns into \<open>None\<close>; an empty array is falsy (or raises, with the same
  result); a one-item array has the truth value of its item.
\<close>

definition rsi_calculate :: "nat \<Rightarrow> py_arg \<Rightarrow> py_float option" where
  "rsi_calculate period prices =
     (case prices of
        NotSeq \<Rightarrow> None
      | PyList ps \<Rightarrow> if ps = [] then None else rsi_from_prices period ps
      | NdArray ps \<Rightarrow>
          (case ps of
             [x] \<Rightarrow> if x = 0 then None else rsi_from_prices period ps
           | _ \<Rightarrow> None))"

section \<open>MACDIndicator (src/indicators/macd.py)\<close>

text \<open>\<open>ema[i - 1]\<close>: index \<open>-1\<close> reads the last item.\<close>

definition py_prev :: "real list \<Rightarrow> nat \<Rightarrow> real" where
  "py_prev ema i = (if i = 0 then last ema else ema ! (i - 1))"

text \<open>
  \<open>_calculate_ema_array\<close>: the array starts as zeros, its first \<open>period\<close> items
  are set to the mean of the first \<open>period\<close> samples (none when the period is 0), and
  the loop fills the items from index \<open>period\<close> on.
\<close>

definition calculate_ema_array :: "real list \<Rightarrow> nat \<Rightarrow> real list option" where
  "calculate_ema_array data period =
     (if length data < period then None
      else
        (let multiplier = 2 / (real period + 1);
             ema = replicate period (np_mean (take period data))
                   @ replicate (length data - period) 0
         in Some (foldl (\<lambda>ema i. ema[i := data ! i * multiplier
                                          + py_prev ema i * (1 - multiplier)])
                    ema [period..<length data])))"

text \<open>
  \<open>calculate\<close>. \<open>macd_line[-1]\<close> on an empty array raises IndexError, which the
  handler turns into the all-\<open>None\<close> triple.
\<close>

definition macd_calculate ::
  "nat \<Rightarrow> nat \<Rightarrow> nat \<Rightarrow> py_arg \<Rightarrow> real option \<times> real option \<times> real option" where
  "macd_calculate fast_period slow_period signal_period prices =
     (case seq_items prices of
        None \<Rightarrow> (None, None, None)
      | Some ps \<Rightarrow>
          if length ps < slow_period + signal_period then (None, None, None)
          else
            (case (calculate_ema_array ps fast_period, calculate_ema_array ps slow_period) of
               (Some fast_ema, Some slow_ema) \<Rightarrow>
                 (let macd_line = map2 (-) fast_ema slow_ema
                  in case calculate_ema_array macd_line signal_period of
                       None \<Rightarrow> (None, None, None)
                     | Some signal_line \<Rightarrow>
                         if macd_line = [] \<or> signal_line = [] then (None, None, None)
                         else
                           (let histogram = last macd_line - last signal_line
                            in (Some (last macd_line), Some (last signal_line),
                                Some histogram)))
             | _ \<Rightarrow> (None, None, None)))"

section \<open>VolumeAnalyzer (src/indicators/volume.py)\<close>

record volume_result =
  average_volume :: real
  volume_trend :: string
  price_volume_correlation :: real
  unusual_volume :: bool
  volume_signal :: string

definition get_empty_result :: volume_result where
  "get_empty_result =
     \<lparr>average_volume = 0, volume_trend = ''neutral'', price_volume_correlation = 0,
      unusual_volume = False, volume_signal = ''normal_volume''\<rparr>"

definition calculate_volume_sma :: "real list \<Rightarrow> real" where
  "calculate_volume_sma volumes =
     (if length volumes < 20 then 0 else np_mean (last_n 20 volumes))"

text \<open>Sum of the products of the deviations from the means.\<close>

definition co_moment :: "real list \<Rightarrow> real list \<Rightarrow> real" where
  "co_moment xs ys =
     sum_list (map2 (\<lambda>x y. (x - np_mean xs) * (y - np_mean ys)) xs ys)"

text \<open>
  \<open>np.corrcoef(x, y)[0, 1]\<close> for two series of one length: the covariance over the
  product of the standard deviations, clipped to [-1, 1]; nan (here \<open>None\<close>) when a
  series has no variance.
\<close>

definition np_corrcoef :: "real list \<Rightarrow> real list \<Rightarrow> real option" where
  "np_corrcoef xs ys =
     (if co_moment xs xs = 0 \<or> co_moment ys ys = 0 then None
      else Some (max (- 1) (min 1
             (co_moment xs ys / (sqrt (co_moment xs xs) * sqrt (co_moment ys ys))))))"

definition calculate_price_volume_correlation :: "real list \<Rightarrow> real list \<Rightarrow> real" where
  "calculate_price_volume_correlation prices volumes =
     (if length prices < 20 \<or> length volumes < 20 then 0
      else
        (let price_changes = np_diff (last_n 20 prices);
             volume_changes = np_diff (last_n 20 volumes)
         in if length price_changes \<noteq> length volume_changes then 0
            else (case np_corrcoef price_changes volume_changes of
                    None \<Rightarrow> 0
                  | Some correlation \<Rightarrow> correlation)))"

text \<open>
  \<open>np.polyfit(range(n), ys, 1)[0]\<close>: the least-squares slope of \<open>ys\<close> over
  \<open>0, 1, ..., n - 1\<close>.
\<close>

definition polyfit_slope :: "real list \<Rightarrow> real" where
  "polyfit_slope ys =
     (let xs = map real [0..<length ys]
      in co_moment xs ys / co_moment xs xs)"

definition analyze_volume_trend :: "real list \<Rightarrow> string" where
  "analyze_volume_trend volumes =
     (if length volumes < 10 then ''neutral''
      else
        (let recent_volumes = last_n 10 volumes;
             slope = polyfit_slope recent_volumes
         in if slope > 0 then ''increasing''
            else if slope < 0 then ''decreasing''
            else ''neutral''))"

text \<open>\<open>np.std\<close>: the population standard deviation.\<close>

definition np_std :: "real list \<Rightarrow> real" where
  "np_std xs = sqrt (co_moment xs xs / real (length xs))"

definition detect_unusual_volume :: "real list \<Rightarrow> bool" where
  "detect_unusual_volume volumes =
     (if length volumes < 20 then False
      else
        (let recent_volumes = last_n 20 volumes;
             mean_volume = np_mean recent_volumes;
             std_volume = np_std recent_volumes
         in if std_volume = 0 then False
            else
              (let current_volume = last volumes;
                   z_score = (current_volume - mean_volume) / std_volume
               in \<bar>z_score\<bar> > 2)))"

definition generate_volume_signal :: "real \<Rightarrow> real \<Rightarrow> string \<Rightarrow> bool \<Rightarrow> string" where
  "generate_volume_signal current_volume avg_volume trend unusual =
     (if current_volume > avg_volume * 2 \<and> trend = ''increasing'' then ''strong_volume''
      else if current_volume < avg_volume * (1 / 2) \<and> trend = ''decreasing''
        then ''weak_volume''
      else if unusual then ''unusual_volume''
      else ''normal_volume'')"

text \<open>
  \<open>analyze_volume\<close>. After the two guards both series have at least two items. The
  test \<open>volumes[-1] if volumes else 0\<close> raises ValueError on an array of two or more
  items, and the handler returns the empty result.
\<close>

definition analyze_volume :: "py_arg \<Rightarrow> py_arg \<Rightarrow> volume_result" where
  "analyze_volume prices volumes =
     (case (seq_items prices, seq_items volumes) of
        (Some ps, Some vs) \<Rightarrow>
          if length ps \<noteq> length vs then get_empty_result
          else if length ps < 2 then get_empty_result
          else
            (let volume_sma = calculate_volume_sma vs;
                 correlation = calculate_price_volume_correlation ps vs;
                 trend = analyze_volume_trend vs;
                 unusual = detect_unusual_volume vs
             in case volumes of
                  NdArray a \<Rightarrow> get_empty_result
                | _ \<Rightarrow>
                    \<lparr>average_volume = volume_sma, volume_trend = trend,
                     price_volume_correlation = correlation, unusual_volume = unusual,
                     volume_signal =
                       generate_volume_signal (if vs \<noteq> [] then last vs else 0) volume_sma
                         trend unusual\<rparr>)
      | _ \<Rightarrow> get_empty_result)"

section \<open>Notions of the specification and example inputs\<close>

text \<open>
  The momentum and convergence tags that raise the win-rate, and how many of them a
  signal list holds (each occurrence counts).
\<close>

definition momentum_signal :: "string \<Rightarrow> bool" where
  "momentum_signal s = (s \<in> {''oversold'', ''bullish_macd'', ''overbought'', ''bearish_macd''})"

definition momentum_count :: "string list \<Rightarrow> int" where
  "momentum_count sigs = int (length (filter momentum_signal sigs))"

text \<open>The snapshot of the round-trip scenario.\<close>

definition snap1 :: snapshot where
  "snap1 = \<lparr>d_price = Num 150, d_change = Num (5 / 2), d_volume = Absent, d_rsi = Num 65,
     d_macd = MDict (Num (3 / 2)) (Num 1), d_52w_high = Num 160, d_52w_low = Num 140\<rparr>"

definition tech1 :: technical where
  "tech1 = \<lparr>t_trend = Some ''neutral'', t_strength = Some ''moderate'',
     t_signals = Some [''overbought'', ''bearish_macd'', ''trend_following_buy'']\<rparr>"

definition price1 :: price_dict where
  "price1 = \<lparr>p_trend = Some ''sideways'', p_volatility = Some ''medium'',
     p_support = None, p_resistance = None\<rparr>"

text \<open>
  The votes of the recommendation: the tags that contain \<open>buy\<close> or \<open>bullish\<close>
  (\<open>sell\<close> or \<open>bearish\<close>), and one more for an uptrend (a downtrend). The trend
  is the \<open>trend\<close> entry of the price dictionary, \<open>None\<close> when it has none.
\<close>

definition bullish_count :: "string list \<Rightarrow> string option \<Rightarrow> nat" where
  "bullish_count signals trend =
     length (filter (\<lambda>s. py_in ''buy'' s \<or> py_in ''bullish'' s) signals)
     + (if trend = Some ''uptrend'' then 1 else 0)"

definition bearish_count :: "string list \<Rightarrow> string option \<Rightarrow> nat" where
  "bearish_count signals trend =
     length (filter (\<lambda>s. py_in ''sell'' s \<or> py_in ''bearish'' s) signals)
     + (if trend = Some ''downtrend'' then 1 else 0)"

text \<open>A snapshot whose price the scraper could not find.\<close>

definition snap_no_price :: snapshot where
  "snap_no_price = \<lparr>d_price = Null, d_change = Num (1 / 2), d_volume = Num 1000, d_rsi = Num 50,
     d_macd = MDict (Num 1) (Num 1), d_52w_high = Num 160, d_52w_low = Num 140\<rparr>"


section \<open>Properties\<close>

lemmas market_data_defs = analyze_stock_def empty_data_def analyze_stock_body_def
  analyze_technical_indicators_def rsi_signals_def macd_signals_def analyze_price_action_def
  determine_trend_def calculate_volatility_def generate_signals_def get_empty_analysis_def

lemmas analyzer_defs = calculate_risk_metrics_def risk_metrics_body_def entry_price_of_def
  stop_take_pct_def win_rate_step_def strength_bonus_def round2_def round_half_even_def
  generate_recommendation_def recommendation_body_def analyze_quote_def analyze_quote_body_def

lemma and_then_Inr_iff:
  "and_then m f = Inr y \<longleftrightarrow> (\<exists>x. m = Inr x \<and> f x = Inr y)"
  by (cases m) auto

lemma py_item_Inr_iff: "py_item v = Inr x \<longleftrightarrow> v = Some x"
  by (cases v) auto

subsection \<open>The round-trip scenario\<close>

text \<open>
  C1: for the snapshot with price 150, change 2.5, 52-week high 160 and low 140, RSI 65
  and MACD line 1.5 over signal 1.0, the pipeline classifies the trend as uptrend and the
  volatility as low, and the risk metrics are entry price 148.5, stop-loss 145.53,
  take-profit 157.41, risk percentage 2 and a win-rate of at least 50 (it is 55: the one
  tag \<open>bullish_macd\<close>).
\<close>

theorem round_trip_scenario:
  "(let a = analyze_stock (Some snap1);
        m = calculate_risk_metrics (a_data a) (a_technical_analysis a) (a_price_analysis a)
    in p_trend (a_price_analysis a) = Some ''uptrend''
       \<and> p_volatility (a_price_analysis a) = Some ''low''
       \<and> entry_price m = 1485 / 10
       \<and> stop_loss m = 14553 / 100
       \<and> take_profit m = 15741 / 100
       \<and> risk_percentage m = 2
       \<and> 50 \<le> win_rate m \<and> win_rate m = 55)"
  by (simp add: market_data_defs analyzer_defs snap1_def Let_def)

subsection \<open>The win-rate\<close>

lemma foldl_win_rate_step:
  "foldl win_rate_step w sigs = w + 5 * momentum_count sigs"
  by (induction sigs arbitrary: w)
    (auto simp: win_rate_step_def momentum_count_def momentum_signal_def)

lemma momentum_count_nonneg: "0 \<le> momentum_count sigs"
  by (simp add: momentum_count_def)

lemma risk_metrics_body_win_rate:
  assumes "risk_metrics_body data technical price = Inr m"
  shows "\<exists>sigs strength. t_signals technical = Some sigs \<and> t_strength technical = Some strength
           \<and> win_rate m = min (50 + 5 * momentum_count sigs
               + (if strength = ''strong'' then 10 else if strength = ''moderate'' then 5 else 0)) 90"
  using assms
  unfolding risk_metrics_body_def Let_def case_prod_beta and_then_Inr_iff py_item_Inr_iff
    foldl_win_rate_step strength_bonus_def
  by (elim exE conjE) (simp only: sum.inject [symmetric], fastforce)

text \<open>
  C2: for every data, technical and price dictionary the win-rate of the risk metrics
  lies in [0, 90]. When the computation raises nothing it is the base 50, plus 5 for each
  occurrence of \<open>oversold\<close>, \<open>bullish_macd\<close>, \<open>overbought\<close> or \<open>bearish_macd\<close>
  in the technical signal list, plus 10 for strength \<open>strong\<close> or 5 for
  \<open>moderate\<close>, capped at 90, and so never below 50; on an internal failure it is 0.
\<close>

theorem win_rate_range:
  "0 \<le> win_rate (calculate_risk_metrics data technical price)
   \<and> win_rate (calculate_risk_metrics data technical price) \<le> 90
   \<and> (\<forall>e. risk_metrics_body data technical price = Inl e \<longrightarrow>
         win_rate (calculate_risk_metrics data technical price) = 0)
   \<and> (\<forall>m. risk_metrics_body data technical price = Inr m \<longrightarrow>
         calculate_risk_metrics data technical price = m
         \<and> 50 \<le> win_rate m
         \<and> (\<exists>sigs strength. t_signals technical = Some sigs
              \<and> t_strength technical = Some strength
              \<and> win_rate m = min (50 + 5 * momentum_count sigs
                   + (if strength = ''strong'' then 10
                      else if strength = ''moderate'' then 5 else 0)) 90))"
proof (cases "risk_metrics_body data technical price")
  case (Inl e)
  then show ?thesis by (simp add: calculate_risk_metrics_def)
next
  case (Inr m)
  from risk_metrics_body_win_rate [OF Inr] obtain sigs strength where
    w: "t_signals technical = Some sigs" "t_strength technical = Some strength"
      "win_rate m = min (50 + 5 * momentum_count sigs
         + (if strength = ''strong'' then 10 else if strength = ''moderate'' then 5 else 0)) 90"
    by blast
  have "50 \<le> win_rate m" "win_rate m \<le> 90"
    using w(3) momentum_count_nonneg [of sigs] by (auto simp: min_def)
  with Inr w show ?thesis by (simp add: calculate_risk_metrics_def)
qed

theorem win_rate_range_witness:
  "risk_metrics_body snap1 tech1 price1 =
     Inr \<lparr>entry_price = 150, stop_loss = 291 / 2, take_profit = 327 / 2, win_rate = 65,
          risk_percentage = 3\<rparr>
   \<and> win_rate (calculate_risk_metrics snap1 tech1 price1) = 65
   \<and> momentum_count [''overbought'', ''bearish_macd'', ''trend_following_buy''] = 2"
  using win_rate_range [of snap1 tech1 price1]
  by (simp add: analyzer_defs snap1_def tech1_def price1_def momentum_count_def
      momentum_signal_def Let_def)

subsection \<open>The recommendation on a tie\<close>

text \<open>
  C3: the recommendation is \<open>Hold\<close> whenever the bullish count equals the bearish
  count (0 to 0 included), for any signal list, any trend and any technical dictionary;
  the counts are the tags containing \<open>buy\<close> or \<open>bullish\<close> against those
  containing \<open>sell\<close> or \<open>bearish\<close>, with one vote added to the bullish side for
  an uptrend and to the bearish side for a downtrend.
\<close>

theorem hold_on_tie:
  "bullish_count signals (p_trend price) = bearish_count signals (p_trend price)
   \<Longrightarrow> generate_recommendation technical price signals = ''Hold''"
  by (cases "p_trend price")
    (auto simp: generate_recommendation_def recommendation_body_def bullish_count_def
      bearish_count_def Let_def split: if_splits)

theorem hold_on_tie_witness:
  "bullish_count [''bearish_macd''] (Some ''uptrend'') = 1
   \<and> bearish_count [''bearish_macd''] (Some ''uptrend'') = 1
   \<and> generate_recommendation tech1 (price1\<lparr>p_trend := Some ''uptrend''\<rparr>) [''bearish_macd''] = ''Hold''
   \<and> generate_recommendation tech1 price1 [] = ''Hold''"
  using hold_on_tie [of "[''bearish_macd'']" "price1\<lparr>p_trend := Some ''uptrend''\<rparr>" tech1]
    hold_on_tie [of "[]" price1 tech1]
  by (simp add: bullish_count_def bearish_count_def price1_def)

subsection \<open>The risk percentage\<close>

text \<open>
  C8, as stated, fails: a snapshot whose price is \<open>None\<close> sends the risk
  computation to its handler, whose zero record has risk percentage 0.
\<close>

theorem risk_percentage_counterexample:
  "risk_percentage (calculate_risk_metrics snap_no_price
      (a_technical_analysis (analyze_stock (Some snap_no_price)))
      (a_price_analysis (analyze_stock (Some snap_no_price)))) \<notin> {2, 3, 5}"
  by (simp add: market_data_defs analyzer_defs snap_no_price_def Let_def)

lemma round2_pct: "round2 5 = 5" "round2 3 = 3" "round2 2 = 2"
  by (simp_all add: round2_def round_half_even_def Let_def)

lemma risk_metrics_body_risk_percentage:
  assumes "risk_metrics_body data technical price = Inr m"
  shows "\<exists>volatility. p_volatility price = Some volatility
           \<and> risk_percentage m = (if volatility = ''high'' then 5
               else if volatility = ''medium'' then 3 else 2)"
  using assms
  unfolding risk_metrics_body_def Let_def case_prod_beta and_then_Inr_iff py_item_Inr_iff
    stop_take_pct_def
  by (elim exE conjE) (simp only: sum.inject [symmetric], auto simp: round2_pct)

text \<open>
  C8, amended: the risk percentage is 5, 3 or 2 (for volatility high, medium, anything
  else) whenever the risk computation raises nothing, and 0, the field of the zero record,
  when it fails internally; so it is always one of 0, 2, 3, 5.
\<close>

theorem risk_percentage_values:
  "risk_percentage (calculate_risk_metrics data technical price) \<in> {0, 2, 3, 5}
   \<and> (\<forall>e. risk_metrics_body data technical price = Inl e \<longrightarrow>
         risk_percentage (calculate_risk_metrics data technical price) = 0)
   \<and> (\<forall>m. risk_metrics_body data technical price = Inr m \<longrightarrow>
         calculate_risk_metrics data technical price = m
         \<and> risk_percentage m \<in> {2, 3, 5}
         \<and> (\<exists>volatility. p_volatility price = Some volatility
              \<and> risk_percentage m = (if volatility = ''high'' then 5
                   else if volatility = ''medium'' then 3 else 2)))"
proof (cases "risk_metrics_body data technical price")
  case (Inl e)
  then show ?thesis by (simp add: calculate_risk_metrics_def)
next
  case (Inr m)
  from risk_metrics_body_risk_percentage [OF Inr] obtain volatility where
    v: "p_volatility price = Some volatility"
      "risk_percentage m = (if volatility = ''high'' then 5
         else if volatility = ''medium'' then 3 else 2)"
    by blast
  then have "risk_percentage m \<in> {2, 3, 5}" by auto
  with Inr v show ?thesis by (simp add: calculate_risk_metrics_def)
qed

theorem risk_percentage_values_witness:
  "risk_metrics_body snap1 tech1 price1 =
     Inr \<lparr>entry_price = 150, stop_loss = 291 / 2, take_profit = 327 / 2, win_rate = 65,
          risk_percentage = 3\<rparr>
   \<and> risk_percentage (calculate_risk_metrics snap1 tech1 price1) = 3
   \<and> risk_metrics_body snap_no_price tech1 price1 = Inl TypeError
   \<and> risk_percentage (calculate_risk_metrics snap_no_price tech1 price1) = 0"
  using risk_percentage_values [of snap1 tech1 price1]
    risk_percentage_values [of snap_no_price tech1 price1]
  by (simp add: analyzer_defs snap1_def snap_no_price_def tech1_def price1_def Let_def)

subsection \<open>Strength is always weak\<close>

lemma analyze_stock_body_strength:
  "analyze_stock_body data = Inr a \<Longrightarrow> t_strength (a_technical_analysis a) = Some ''weak''"
  by (auto simp: analyze_stock_body_def Let_def and_then_Inr_iff analyze_technical_indicators_def)

lemma analyze_stock_strength:
  "t_strength (a_technical_analysis (analyze_stock fetched)) = Some ''weak''"
  by (auto simp: analyze_stock_def get_empty_analysis_def analyze_stock_body_strength
      split: option.splits sum.splits)

lemma weak_recommendation:
  assumes "t_strength technical = Some ''weak''"
  shows "generate_recommendation technical price signals \<in> {''Buy'', ''Sell'', ''Hold''}"
  using assms
  by (cases "p_trend price")
    (simp_all add: generate_recommendation_def recommendation_body_def Let_def)

lemma weak_win_rate:
  assumes "t_strength technical = Some ''weak''"
  shows "win_rate (calculate_risk_metrics data technical price) = 0
         \<or> (\<exists>sigs. t_signals technical = Some sigs
               \<and> win_rate (calculate_risk_metrics data technical price)
                   = min (50 + 5 * momentum_count sigs) 90)"
proof (cases "risk_metrics_body data technical price")
  case (Inl e)
  then show ?thesis by (simp add: calculate_risk_metrics_def)
next
  case (Inr m)
  from risk_metrics_body_win_rate [OF Inr] assms Inr show ?thesis
    by (auto simp: calculate_risk_metrics_def)
qed

lemma analyze_quote_Some:
  assumes "analyze_quote symbol fetched = Some r"
  shows "q_trend_strength r = the (t_strength (a_technical_analysis (analyze_stock fetched)))
    \<and> q_recommendation r = generate_recommendation (a_technical_analysis (analyze_stock fetched))
         (a_price_analysis (analyze_stock fetched)) (a_signals (analyze_stock fetched))
    \<and> q_win_rate r = win_rate (calculate_risk_metrics (a_data (analyze_stock fetched))
         (a_technical_analysis (analyze_stock fetched)) (a_price_analysis (analyze_stock fetched)))"
  using assms
  unfolding analyze_quote_def analyze_quote_body_def Let_def
  by (auto simp: and_then_Inr_iff py_item_Inr_iff split: sum.splits)

text \<open>
  C9: the technical analysis always has strength \<open>weak\<close>, from
  \<open>_analyze_technical_indicators\<close> and from the empty analysis alike; so every quote
  that \<open>analyze_quote\<close> returns has trend strength \<open>weak\<close>, a recommendation
  among \<open>Buy\<close>, \<open>Sell\<close>, \<open>Hold\<close> (never \<open>Strong Buy\<close> or
  \<open>Strong Sell\<close>), and a win-rate without strength bonus: 0 on the failure path,
  else 50 plus 5 per momentum tag, capped at 90.
\<close>

theorem strength_always_weak:
  "t_strength (analyze_technical_indicators data) = Some ''weak''
   \<and> t_strength (a_technical_analysis (analyze_stock fetched)) = Some ''weak''
   \<and> (\<forall>r. analyze_quote symbol fetched = Some r \<longrightarrow>
         q_trend_strength r = ''weak''
         \<and> q_recommendation r \<in> {''Buy'', ''Sell'', ''Hold''}
         \<and> q_recommendation r \<noteq> ''Strong Buy''
         \<and> q_recommendation r \<noteq> ''Strong Sell''
         \<and> (q_win_rate r = 0
            \<or> (\<exists>sigs. t_signals (a_technical_analysis (analyze_stock fetched)) = Some sigs
                  \<and> q_win_rate r = min (50 + 5 * momentum_count sigs) 90)))"
proof (intro conjI allI impI)
  show "t_strength (analyze_technical_indicators data) = Some ''weak''"
    by (simp add: analyze_technical_indicators_def)
  show w: "t_strength (a_technical_analysis (analyze_stock fetched)) = Some ''weak''"
    by (rule analyze_stock_strength)
  fix r assume r: "analyze_quote symbol fetched = Some r"
  note q = analyze_quote_Some [OF r]
  show "q_trend_strength r = ''weak''" using q w by simp
  have rec: "q_recommendation r \<in> {''Buy'', ''Sell'', ''Hold''}"
    using q weak_recommendation [OF w] by simp
  then show "q_recommendation r \<in> {''Buy'', ''Sell'', ''Hold''}" .
  show "q_recommendation r \<noteq> ''Strong Buy''" using rec by auto
  show "q_recommendation r \<noteq> ''Strong Sell''" using rec by auto
  show "q_win_rate r = 0
        \<or> (\<exists>sigs. t_signals (a_technical_analysis (analyze_stock fetched)) = Some sigs
              \<and> q_win_rate r = min (50 + 5 * momentum_count sigs) 90)"
    using q weak_win_rate [OF w] by simp
qed

theorem strength_always_weak_witness:
  "(\<exists>r. analyze_quote ''AAPL'' (Some snap1) = Some r
        \<and> q_trend_strength r = ''weak'' \<and> q_recommendation r = ''Buy'' \<and> q_win_rate r = 55)
   \<and> t_strength (analyze_technical_indicators snap1) = Some ''weak''"
  using strength_always_weak [of snap1 "Some snap1" "''AAPL''"]
  by (simp add: market_data_defs analyzer_defs snap1_def Let_def)

subsection \<open>Equal MACD line and signal\<close>

text \<open>
  C10: when the MACD line and signal of a snapshot are both present and equal, the
  technical signals contain \<open>bearish_macd\<close> and not \<open>bullish_macd\<close>; so does
  the signal list of \<open>analyze_stock\<close>, provided the analysis does not fall back to
  the empty one (the change entry is not \<open>None\<close>).
\<close>

theorem equal_macd_is_bearish:
  "d_macd data = MDict (Num v) (Num v) \<Longrightarrow>
     (\<exists>sigs. t_signals (analyze_technical_indicators data) = Some sigs
        \<and> ''bearish_macd'' \<in> set sigs \<and> ''bullish_macd'' \<notin> set sigs)
     \<and> (d_change data \<noteq> Null \<longrightarrow>
          ''bearish_macd'' \<in> set (a_signals (analyze_stock (Some data)))
          \<and> ''bullish_macd'' \<notin> set (a_signals (analyze_stock (Some data))))"
  by (cases "d_change data")
    (auto simp: market_data_defs Let_def split: option.splits)

theorem equal_macd_is_bearish_witness:
  "d_macd snap_no_price = MDict (Num 1) (Num 1) \<and> d_change snap_no_price \<noteq> Null
   \<and> t_signals (analyze_technical_indicators snap_no_price) = Some [''bearish_macd'']
   \<and> a_signals (analyze_stock (Some snap_no_price)) = [''bearish_macd'']"
  using equal_macd_is_bearish [of snap_no_price 1]
  by (simp add: market_data_defs snap_no_price_def Let_def)

subsection \<open>The RSI score\<close>








text \<open>
  A period of 0 is no window: the initial mean is taken of an empty slice, which is nan,
  and the score of every non-empty list is then nan.
\<close>

lemma rsi_period_zero:
  "prices \<noteq> [] \<Longrightarrow> rsi_calculate 0 (PyList prices) = Some NaN"
  by (simp add: rsi_calculate_def rsi_from_prices_def calculate_average_def Let_def)




subsection \<open>Short and malformed inputs\<close>

lemma rsi_from_prices_short:
  "length (np_diff ps) < period \<Longrightarrow> rsi_from_prices period ps = None"
  by (simp add: rsi_from_prices_def Let_def)

lemma macd_calculate_empty:
  "macd_calculate f s g (PyList []) = (None, None, None)"
  "macd_calculate f s g (NdArray []) = (None, None, None)"
  by (simp_all add: macd_calculate_def calculate_ema_array_def Let_def split: option.splits)

text \<open>
  C5: an input that is not a sequence, an empty one, and one shorter than the window
  (for the RSI fewer than \<open>period\<close> differences, for the MACD fewer than
  \<open>slow + signal\<close> samples) gives the unknown value: \<open>None\<close> for the RSI, the
  triple of \<open>None\<close> for the MACD. Both functions are total, so nothing is thrown.
\<close>

theorem short_input_gives_unknown:
  "rsi_calculate period NotSeq = None
   \<and> rsi_calculate period (PyList []) = None
   \<and> rsi_calculate period (NdArray []) = None
   \<and> (length (np_diff ps) < period \<longrightarrow>
        rsi_calculate period (PyList ps) = None \<and> rsi_calculate period (NdArray ps) = None)
   \<and> macd_calculate fast slow signal_period NotSeq = (None, None, None)
   \<and> macd_calculate fast slow signal_period (PyList []) = (None, None, None)
   \<and> macd_calculate fast slow signal_period (NdArray []) = (None, None, None)
   \<and> (length ps < slow + signal_period \<longrightarrow>
        macd_calculate fast slow signal_period (PyList ps) = (None, None, None)
        \<and> macd_calculate fast slow signal_period (NdArray ps) = (None, None, None))"
proof (intro conjI impI)
  show "rsi_calculate period NotSeq = None"
    "rsi_calculate period (PyList []) = None"
    "rsi_calculate period (NdArray []) = None"
    by (simp_all add: rsi_calculate_def)
  show "macd_calculate fast slow signal_period NotSeq = (None, None, None)"
    by (simp add: macd_calculate_def)
  show "macd_calculate fast slow signal_period (PyList []) = (None, None, None)"
    "macd_calculate fast slow signal_period (NdArray []) = (None, None, None)"
    by (rule macd_calculate_empty)+
next
  assume "length (np_diff ps) < period"
  then have "rsi_from_prices period ps = None" by (rule rsi_from_prices_short)
  then show "rsi_calculate period (PyList ps) = None" "rsi_calculate period (NdArray ps) = None"
    by (auto simp: rsi_calculate_def split: list.splits)
next
  assume "length ps < slow + signal_period"
  then show "macd_calculate fast slow signal_period (PyList ps) = (None, None, None)"
    "macd_calculate fast slow signal_period (NdArray ps) = (None, None, None)"
    by (simp_all add: macd_calculate_def)
qed

theorem short_input_gives_unknown_witness:
  "length (np_diff [100, 102, 104, 103, 105 :: real]) < 14
   \<and> rsi_calculate 14 (PyList [100, 102, 104, 103, 105]) = None
   \<and> length [100, 102, 104, 103, 105 :: real] < 26 + 9
   \<and> macd_calculate 12 26 9 (PyList [100, 102, 104, 103, 105]) = (None, None, None)"
  using short_input_gives_unknown [of 14 "[100, 102, 104, 103, 105]" 12 26 9]
  by simp

subsection \<open>The MACD triple\<close>

text \<open>
  C7: \<open>calculate\<close> of the MACD returns the triple of \<open>None\<close> or three numbers
  (line, signal and their difference, the histogram), never a triple with one or two
  fields present.
\<close>

theorem macd_all_or_none:
  "macd_calculate fast slow signal_period prices = (None, None, None)
   \<or> (\<exists>line sig. macd_calculate fast slow signal_period prices
          = (Some line, Some sig, Some (line - sig)))"
  by (simp add: macd_calculate_def Let_def split: option.splits)

text \<open>A series long enough for its periods gives three numbers.\<close>

lemma macd_calculate_example:
  "macd_calculate 2 3 2 (PyList [1, 2, 4, 8, 9]) = (Some (113 / 108), Some 1, Some (5 / 108))"
  by code_simp

subsection \<open>The default volume result\<close>

text \<open>
  C6: when prices or volumes are not a sequence (\<open>None\<close> included), differ in
  length, or have fewer than two items, \<open>analyze_volume\<close> returns exactly the
  default result: average volume 0, trend \<open>neutral\<close>, correlation 0, no unusual
  volume, signal \<open>normal_volume\<close>.
\<close>

theorem empty_volume_result:
  assumes "prices = NotSeq \<or> volumes = NotSeq \<or> seq_len prices \<noteq> seq_len volumes
           \<or> (\<exists>n. seq_len prices = Some n \<and> n < 2)
           \<or> (\<exists>n. seq_len volumes = Some n \<and> n < 2)"
  shows "analyze_volume prices volumes =
           \<lparr>average_volume = 0, volume_trend = ''neutral'', price_volume_correlation = 0,
            unusual_volume = False, volume_signal = ''normal_volume''\<rparr>"
  using assms
  by (cases prices; cases volumes)
    (auto simp: analyze_volume_def get_empty_result_def)

theorem empty_volume_result_witness:
  "analyze_volume NotSeq NotSeq = get_empty_result
   \<and> analyze_volume (PyList []) (PyList []) = get_empty_result
   \<and> analyze_volume (PyList [100]) (PyList [1000]) = get_empty_result
   \<and> analyze_volume (PyList [100, 101]) (PyList [1000]) = get_empty_result
   \<and> seq_len (PyList [100, 101]) \<noteq> seq_len (PyList [1000])"
  using empty_volume_result [of NotSeq NotSeq] empty_volume_result [of "PyList []" "PyList []"]
    empty_volume_result [of "PyList [100]" "PyList [1000]"]
    empty_volume_result [of "PyList [100, 101]" "PyList [1000]"]
  by (simp add: get_empty_result_def)

text \<open>Past the guards the analysis is computed; an array of volumes ends in the handler.\<close>

lemma polyfit_slope_example:
  "polyfit_slope [1, 2, 3, 4, 5, 6, 7, 8, 9, 10] = 1"
  by (simp add: polyfit_slope_def co_moment_def np_mean_def Let_def upt_rec)

lemma analyze_volume_example:
  "analyze_volume (PyList [1, 1, 1, 1, 1, 1, 1, 1, 1, 1]) (PyList [1, 2, 3, 4, 5, 6, 7, 8, 9, 10]) =
     \<lparr>average_volume = 0, volume_trend = ''increasing'', price_volume_correlation = 0,
      unusual_volume = False, volume_signal = ''strong_volume''\<rparr>"
  by (simp add: analyze_volume_def calculate_volume_sma_def calculate_price_volume_correlation_def
      analyze_volume_trend_def detect_unusual_volume_def generate_volume_signal_def last_n_def
      polyfit_slope_example Let_def)

lemma analyze_volume_ndarray:
  "analyze_volume (PyList [1, 1, 1, 1, 1, 1, 1, 1, 1, 1]) (NdArray [1, 2, 3, 4, 5, 6, 7, 8, 9, 10]) =
     get_empty_result"
  by (simp add: analyze_volume_def Let_def)

end
